theory Spec2Isabelle
  imports Complex_Main
begin

section \<open>Python values, errors and built-ins\<close>

text \<open>
  The settings layer of the bot (\<^verbatim>\<open>database.py\<close>, \<^verbatim>\<open>user_preferences.py\<close>) only parses,
  stores and copies speeds; it never computes with them. A float is therefore represented by
  the real number it denotes. A speed handed to the layer, or read from the column, is
  \<^verbatim>\<open>None\<close>, a float or a string. A \<^verbatim>\<open>str\<close> is a \<open>string\<close>; text outside ASCII is held as
  its UTF-8 bytes, which keeps equality of strings as it is in Python.
\<close>

datatype pyval = PyNone | PyFloat real | PyStr string

datatype py_error = SQLAlchemyError | ValueError | TypeError

text \<open>A Telegram user id reaches the store as an \<^verbatim>\<open>int\<close> or as a \<^verbatim>\<open>str\<close>.\<close>

datatype uid = UInt int | UStr string

fun str_nat :: "nat \<Rightarrow> string" where
  "str_nat n =
     (if n < 10 then [''0123456789'' ! n]
      else str_nat (n div 10) @ [''0123456789'' ! (n mod 10)])"

definition str_int :: "int \<Rightarrow> string" where
  "str_int i = (if i < 0 then CHR ''-'' # str_nat (nat (- i)) else str_nat (nat i))"

text \<open>\<^verbatim>\<open>str(user_id)\<close>: the decimal text of an int, a str unchanged.\<close>

fun py_str :: "uid \<Rightarrow> string" where
  "py_str (UInt i) = str_int i"
| "py_str (UStr s) = s"

text \<open>Truth value of \<^verbatim>\<open>d.get(k)\<close> in \<^verbatim>\<open>if name:\<close>: \<^verbatim>\<open>None\<close> and the empty string are false.\<close>

fun truthy :: "string option \<Rightarrow> bool" where
  "truthy None = False"
| "truthy (Some s) = (s \<noteq> [])"

section \<open>Constants and catalog\<close>

text \<open>
  \<^verbatim>\<open>constants.py\<close> is not among the sources, so the names imported from it are fields of an
  environment, next to the two built-ins of Python the code relies on: \<^verbatim>\<open>str.upper\<close> and
  the parser behind \<^verbatim>\<open>float(s)\<close> for a string \<^verbatim>\<open>s\<close> (\<open>None\<close> when it raises ValueError).
  The type of \<^verbatim>\<open>DEFAULT_SPEED\<close> is modelled from the spec, which has the speed a float with
  default 1.0, as the column \<^verbatim>\<open>speed = Column(Float, default=1.0)\<close> of \<^verbatim>\<open>models.py\<close> has.
\<close>

record env =
  str_upper :: "string \<Rightarrow> string"
  float_of_str :: "string \<Rightarrow> real option"
  DEFAULT_SOURCE_LANGUAGE :: string
  DEFAULT_LANGUAGE :: string
  DEFAULT_AUDIO_LANGUAGE :: string
  DEFAULT_VOICE_TYPE :: string
  DEFAULT_SPEED :: real
  VOICE_TYPES :: "string \<rightharpoonup> string"
  AVAILABLE_AUDIO_LANGUAGES :: "string \<rightharpoonup> string"

text \<open>\<^verbatim>\<open>float(x)\<close>: TypeError on \<^verbatim>\<open>None\<close>, ValueError on a string that is not a number.\<close>

fun py_float :: "env \<Rightarrow> pyval \<Rightarrow> py_error + real" where
  "py_float e PyNone = Inl TypeError"
| "py_float e (PyFloat x) = Inr x"
| "py_float e (PyStr s) = (case float_of_str e s of None \<Rightarrow> Inl ValueError | Some x \<Rightarrow> Inr x)"

text \<open>\<^verbatim>\<open>translator.get_available_languages()\<close>\<close>

definition get_available_languages :: "string \<rightharpoonup> string" where
  "get_available_languages = map_of
     [(''en'', ''English''), (''es'', ''Spanish''), (''fr'', ''French''), (''de'', ''German''),
      (''it'', ''Italian''), (''pt'', ''Portuguese''), (''ru'', ''Russian''),
      (''zh-CN'', ''Chinese (Simplified)''), (''ja'', ''Japanese''), (''ko'', ''Korean''),
      (''ar'', ''Arabic''), (''hi'', ''Hindi''), (''tr'', ''Turkish''), (''nl'', ''Dutch''),
      (''sv'', ''Swedish''), (''fi'', ''Finnish''), (''pl'', ''Polish''), (''uk'', ''Ukrainian'')]"

text \<open>The label of automatic detection, the Russian word for it, in UTF-8.\<close>

definition AUTO_LABEL :: string where
  "AUTO_LABEL = [CHR 0xD0, CHR 0x90, CHR 0xD0, CHR 0xB2, CHR 0xD1, CHR 0x82, CHR 0xD0, CHR 0xBE,
     CHR 0xD0, CHR 0xBE, CHR 0xD0, CHR 0xBF, CHR 0xD1, CHR 0x80, CHR 0xD0, CHR 0xB5, CHR 0xD0, CHR 0xB4,
     CHR 0xD0, CHR 0xB5, CHR 0xD0, CHR 0xBB, CHR 0xD0, CHR 0xB5, CHR 0xD0, CHR 0xBD, CHR 0xD0, CHR 0xB8,
     CHR 0xD0, CHR 0xB5]"

section \<open>The table \<^verbatim>\<open>user_settings\<close> (models.py)\<close>

record user_settings =
  row_id :: nat
  user_id :: string
  source_language :: string
  language :: string
  audio_language :: string
  voice_type :: string
  speed :: pyval
  source_language_name :: string
  language_name :: string
  audio_language_name :: string
  voice_type_name :: string

text \<open>
  The table is the list of its rows in insertion order, with the next value of the
  auto-incremented key. A call of the store may be hit by a failure of the persistence layer
  (an \<^verbatim>\<open>SQLAlchemyError\<close>), either while it queries or while it commits; which one, if any,
  is an input of the model.
\<close>

record store =
  rows :: "user_settings list"
  next_id :: nat

datatype fault = NoFault | QueryFails | CommitFails

text \<open>\<^verbatim>\<open>session.query(UserSettings).filter_by(user_id=u).first()\<close>\<close>

definition query_first :: "string \<Rightarrow> store \<Rightarrow> user_settings option" where
  "query_first u st = find (\<lambda>r. user_id r = u) (rows st)"

text \<open>
  Committing a change of the object that \<open>query_first\<close> returned rewrites that row, the
  first one of the user, in place.
\<close>

fun update_first :: "string \<Rightarrow> (user_settings \<Rightarrow> user_settings) \<Rightarrow> user_settings list \<Rightarrow> user_settings list" where
  "update_first u f [] = []"
| "update_first u f (r # rs) = (if user_id r = u then f r # rs else r # update_first u f rs)"

definition commit_update :: "string \<Rightarrow> (user_settings \<Rightarrow> user_settings) \<Rightarrow> store \<Rightarrow> store" where
  "commit_update u f st = st\<lparr>rows := update_first u f (rows st)\<rparr>"

section \<open>The settings store (database.py)\<close>

text \<open>
  Every operation opens a session, queries the row of \<^verbatim>\<open>str(user_id)\<close>, and on an
  \<^verbatim>\<open>SQLAlchemyError\<close> rolls back and raises it again: the table is then as it was. Any
  other exception leaves the \<^verbatim>\<open>try\<close> uncaught before \<^verbatim>\<open>commit\<close>, and closing the session
  drops the pending change. An operation returns its outcome and the table after it.
\<close>

definition get_or_create_user_settings ::
    "env \<Rightarrow> uid \<Rightarrow> fault \<Rightarrow> store \<Rightarrow> (py_error + user_settings) \<times> store" where
  "get_or_create_user_settings e uid flt st =
     (if flt = QueryFails then (Inl SQLAlchemyError, st)
      else case query_first (py_str uid) st of
        Some settings \<Rightarrow> (Inr settings, st)
      | None \<Rightarrow>
          (let language_name =
                 (let n = get_available_languages (DEFAULT_LANGUAGE e)
                  in if \<not> truthy n then str_upper e (DEFAULT_LANGUAGE e) else the n);
               source_language_name =
                 (if DEFAULT_SOURCE_LANGUAGE e = ''auto'' then AUTO_LABEL
                  else let n = get_available_languages (DEFAULT_SOURCE_LANGUAGE e)
                       in if \<not> truthy n then str_upper e (DEFAULT_SOURCE_LANGUAGE e) else the n);
               audio_language_name =
                 (let n = AVAILABLE_AUDIO_LANGUAGES e (DEFAULT_AUDIO_LANGUAGE e)
                  in if \<not> truthy n then str_upper e (DEFAULT_AUDIO_LANGUAGE e) else the n);
               voice_type_name =
                 (let n = VOICE_TYPES e (DEFAULT_VOICE_TYPE e)
                  in if \<not> truthy n then str_upper e (DEFAULT_VOICE_TYPE e) else the n);
               settings = \<lparr>row_id = next_id st,
                           user_id = py_str uid,
                           source_language = DEFAULT_SOURCE_LANGUAGE e,
                           language = DEFAULT_LANGUAGE e,
                           audio_language = DEFAULT_AUDIO_LANGUAGE e,
                           voice_type = DEFAULT_VOICE_TYPE e,
                           speed = PyFloat (DEFAULT_SPEED e),
                           source_language_name = source_language_name,
                           language_name = language_name,
                           audio_language_name = audio_language_name,
                           voice_type_name = voice_type_name\<rparr>
           in if flt = CommitFails then (Inl SQLAlchemyError, st)
              else (Inr settings,
                    st\<lparr>rows := rows st @ [settings], next_id := Suc (next_id st)\<rparr>)))"

definition update_user_language ::
    "env \<Rightarrow> uid \<Rightarrow> string \<Rightarrow> fault \<Rightarrow> store \<Rightarrow> (py_error + unit) \<times> store" where
  "update_user_language e uid language_code flt st =
     (if flt = QueryFails then (Inl SQLAlchemyError, st)
      else case query_first (py_str uid) st of
        None \<Rightarrow> (Inr (), st)
      | Some settings \<Rightarrow>
          (let n = get_available_languages language_code;
               change = (\<lambda>r. r\<lparr>language := language_code,
                                language_name := (if truthy n then the n
                                                  else str_upper e language_code)\<rparr>)
           in if flt = CommitFails then (Inl SQLAlchemyError, st)
              else (Inr (), commit_update (py_str uid) change st)))"

definition update_user_audio_language ::
    "env \<Rightarrow> uid \<Rightarrow> string \<Rightarrow> fault \<Rightarrow> store \<Rightarrow> (py_error + unit) \<times> store" where
  "update_user_audio_language e uid language_code flt st =
     (if flt = QueryFails then (Inl SQLAlchemyError, st)
      else case query_first (py_str uid) st of
        None \<Rightarrow> (Inr (), st)
      | Some settings \<Rightarrow>
          (let n = AVAILABLE_AUDIO_LANGUAGES e language_code;
               change = (\<lambda>r. r\<lparr>audio_language := language_code,
                                audio_language_name := (if truthy n then the n
                                                        else str_upper e language_code)\<rparr>)
           in if flt = CommitFails then (Inl SQLAlchemyError, st)
              else (Inr (), commit_update (py_str uid) change st)))"

definition update_user_voice_type ::
    "env \<Rightarrow> uid \<Rightarrow> string \<Rightarrow> fault \<Rightarrow> store \<Rightarrow> (py_error + unit) \<times> store" where
  "update_user_voice_type e uid vt flt st =
     (if flt = QueryFails then (Inl SQLAlchemyError, st)
      else case query_first (py_str uid) st of
        None \<Rightarrow> (Inr (), st)
      | Some settings \<Rightarrow>
          (let n = VOICE_TYPES e vt;
               change = (\<lambda>r. r\<lparr>voice_type := vt,
                                voice_type_name := (if truthy n then the n
                                                    else str_upper e vt)\<rparr>)
           in if flt = CommitFails then (Inl SQLAlchemyError, st)
              else (Inr (), commit_update (py_str uid) change st)))"

definition update_user_source_language ::
    "env \<Rightarrow> uid \<Rightarrow> string \<Rightarrow> fault \<Rightarrow> store \<Rightarrow> (py_error + unit) \<times> store" where
  "update_user_source_language e uid language_code flt st =
     (if flt = QueryFails then (Inl SQLAlchemyError, st)
      else case query_first (py_str uid) st of
        None \<Rightarrow> (Inr (), st)
      | Some settings \<Rightarrow>
          (let name =
                 (if language_code = ''auto'' then AUTO_LABEL
                  else let n = get_available_languages language_code
                       in if \<not> truthy n then str_upper e language_code else the n);
               change = (\<lambda>r. r\<lparr>source_language := language_code,
                                source_language_name := name\<rparr>)
           in if flt = CommitFails then (Inl SQLAlchemyError, st)
              else (Inr (), commit_update (py_str uid) change st)))"

text \<open>
  \<^verbatim>\<open>float(speed)\<close> runs only once the row is found, before the row is touched; its
  ValueError or TypeError is not an \<^verbatim>\<open>SQLAlchemyError\<close> and leaves the function as it is.
\<close>

definition update_user_speed ::
    "env \<Rightarrow> uid \<Rightarrow> pyval \<Rightarrow> fault \<Rightarrow> store \<Rightarrow> (py_error + unit) \<times> store" where
  "update_user_speed e uid spd flt st =
     (if flt = QueryFails then (Inl SQLAlchemyError, st)
      else case query_first (py_str uid) st of
        None \<Rightarrow> (Inr (), st)
      | Some settings \<Rightarrow>
          (case py_float e spd of
             Inl err \<Rightarrow> (Inl err, st)
           | Inr speed_float \<Rightarrow>
               if flt = CommitFails then (Inl SQLAlchemyError, st)
               else (Inr (), commit_update (py_str uid) (\<lambda>r. r\<lparr>speed := PyFloat speed_float\<rparr>) st)))"

section \<open>The preferences object (user_preferences.py)\<close>

record user_preferences =
  self_user_id :: uid
  self_source_language :: string
  self_language :: string
  self_audio_language :: string
  self_speed :: pyval
  self_voice_type :: string
  self_source_language_name :: string
  self_language_name :: string
  self_audio_language_name :: string
  self_voice_type_name :: string

text \<open>
  The body of the \<^verbatim>\<open>try\<close> of \<^verbatim>\<open>__init__\<close>. The inner handler takes ValueError and
  TypeError of \<^verbatim>\<open>float(settings.speed)\<close>; anything else goes to the outer handler.
\<close>

definition init_try ::
    "env \<Rightarrow> uid \<Rightarrow> fault \<Rightarrow> store \<Rightarrow> (py_error + user_preferences) \<times> store" where
  "init_try e uid flt st =
     (case get_or_create_user_settings e uid flt st of
        (Inl err, st') \<Rightarrow> (Inl err, st')
      | (Inr settings, st') \<Rightarrow>
          (case (case py_float e (speed settings) of
                   Inr x \<Rightarrow> Inr (PyFloat x)
                 | Inl err \<Rightarrow> if err = ValueError \<or> err = TypeError
                              then Inr (PyFloat (DEFAULT_SPEED e)) else Inl err) of
             Inl err \<Rightarrow> (Inl err, st')
           | Inr spd \<Rightarrow>
               (Inr \<lparr>self_user_id = uid,
                     self_source_language = source_language settings,
                     self_language = language settings,
                     self_audio_language = audio_language settings,
                     self_speed = spd,
                     self_voice_type = voice_type settings,
                     self_source_language_name = source_language_name settings,
                     self_language_name = language_name settings,
                     self_audio_language_name = audio_language_name settings,
                     self_voice_type_name = voice_type_name settings\<rparr>, st')))"

text \<open>The handler \<^verbatim>\<open>except Exception\<close> of \<^verbatim>\<open>__init__\<close>: the defaults and their names.\<close>

definition init_except :: "env \<Rightarrow> uid \<Rightarrow> user_preferences" where
  "init_except e uid =
     \<lparr>self_user_id = uid,
      self_source_language = DEFAULT_SOURCE_LANGUAGE e,
      self_language = DEFAULT_LANGUAGE e,
      self_audio_language = DEFAULT_AUDIO_LANGUAGE e,
      self_speed = PyFloat (DEFAULT_SPEED e),
      self_voice_type = DEFAULT_VOICE_TYPE e,
      self_source_language_name =
        (if DEFAULT_SOURCE_LANGUAGE e = ''auto'' then AUTO_LABEL
         else let n = get_available_languages (DEFAULT_SOURCE_LANGUAGE e)
              in if truthy n then the n else str_upper e (DEFAULT_SOURCE_LANGUAGE e)),
      self_language_name =
        (let n = get_available_languages (DEFAULT_LANGUAGE e)
         in if truthy n then the n else str_upper e (DEFAULT_LANGUAGE e)),
      self_audio_language_name =
        (let n = AVAILABLE_AUDIO_LANGUAGES e (DEFAULT_AUDIO_LANGUAGE e)
         in if truthy n then the n else str_upper e (DEFAULT_AUDIO_LANGUAGE e)),
      self_voice_type_name =
        (let n = VOICE_TYPES e (DEFAULT_VOICE_TYPE e)
         in if truthy n then the n else str_upper e (DEFAULT_VOICE_TYPE e))\<rparr>"

definition init :: "env \<Rightarrow> uid \<Rightarrow> fault \<Rightarrow> store \<Rightarrow> (py_error + user_preferences) \<times> store" where
  "init e uid flt st =
     (case init_try e uid flt st of
        (Inr self, st') \<Rightarrow> (Inr self, st')
      | (Inl err, st') \<Rightarrow> (Inr (init_except e uid), st'))"

text \<open>
  The update methods: the store first, then the attributes; \<^verbatim>\<open>except Exception\<close> logs and
  returns. A method yields the object after the call and the table after the call.
\<close>

definition update_language ::
    "env \<Rightarrow> user_preferences \<Rightarrow> string \<Rightarrow> fault \<Rightarrow> store \<Rightarrow> (py_error + user_preferences) \<times> store" where
  "update_language e self language_code flt st =
     (case update_user_language e (self_user_id self) language_code flt st of
        (Inl err, st') \<Rightarrow> (Inr self, st')
      | (Inr _, st') \<Rightarrow>
          (let n = get_available_languages language_code
           in (Inr (self\<lparr>self_language := language_code,
                         self_language_name := (if truthy n then the n
                                                else str_upper e language_code)\<rparr>), st')))"

definition update_audio_language ::
    "env \<Rightarrow> user_preferences \<Rightarrow> string \<Rightarrow> fault \<Rightarrow> store \<Rightarrow> (py_error + user_preferences) \<times> store" where
  "update_audio_language e self language_code flt st =
     (case update_user_audio_language e (self_user_id self) language_code flt st of
        (Inl err, st') \<Rightarrow> (Inr self, st')
      | (Inr _, st') \<Rightarrow>
          (let n = AVAILABLE_AUDIO_LANGUAGES e language_code
           in (Inr (self\<lparr>self_audio_language := language_code,
                         self_audio_language_name := (if truthy n then the n
                                                      else str_upper e language_code)\<rparr>), st')))"

definition update_speed ::
    "env \<Rightarrow> user_preferences \<Rightarrow> pyval \<Rightarrow> fault \<Rightarrow> store \<Rightarrow> (py_error + user_preferences) \<times> store" where
  "update_speed e self spd flt st =
     (case py_float e spd of
        Inl err \<Rightarrow> (Inr self, st)
      | Inr speed_float \<Rightarrow>
          (case update_user_speed e (self_user_id self) (PyFloat speed_float) flt st of
             (Inl err, st') \<Rightarrow> (Inr self, st')
           | (Inr _, st') \<Rightarrow> (Inr (self\<lparr>self_speed := PyFloat speed_float\<rparr>), st')))"

definition update_source_language ::
    "env \<Rightarrow> user_preferences \<Rightarrow> string \<Rightarrow> fault \<Rightarrow> store \<Rightarrow> (py_error + user_preferences) \<times> store" where
  "update_source_language e self language_code flt st =
     (case update_user_source_language e (self_user_id self) language_code flt st of
        (Inl err, st') \<Rightarrow> (Inr self, st')
      | (Inr _, st') \<Rightarrow>
          (Inr (self\<lparr>self_source_language := language_code,
                     self_source_language_name :=
                       (if language_code = ''auto'' then AUTO_LABEL
                        else let n = get_available_languages language_code
                             in if truthy n then the n else str_upper e language_code)\<rparr>), st'))"

text \<open>\<^verbatim>\<open>VOICE_TYPES.get(voice_type, "Unknown")\<close>: the default only when the key is absent.\<close>

definition update_voice_type ::
    "env \<Rightarrow> user_preferences \<Rightarrow> string \<Rightarrow> fault \<Rightarrow> store \<Rightarrow> (py_error + user_preferences) \<times> store" where
  "update_voice_type e self vt flt st =
     (case update_user_voice_type e (self_user_id self) vt flt st of
        (Inl err, st') \<Rightarrow> (Inr self, st')
      | (Inr _, st') \<Rightarrow>
          (Inr (self\<lparr>self_voice_type := vt,
                     self_voice_type_name :=
                       (case VOICE_TYPES e vt of Some n \<Rightarrow> n | None \<Rightarrow> ''Unknown'')\<rparr>), st'))"

section \<open>The constants of the specification, and an instance to evaluate with\<close>

text \<open>
  Modelled from the spec: \<^verbatim>\<open>constants.py\<close> is missing. The defaults of a new user are those
  of the specification's scenario (and of the column defaults in \<^verbatim>\<open>models.py\<close>):
  source language \<^verbatim>\<open>auto\<close>, language and audio language \<^verbatim>\<open>ru\<close>, voice type \<^verbatim>\<open>normal\<close>,
  speed 1.0. The two tables \<^verbatim>\<open>VOICE_TYPES\<close> and \<^verbatim>\<open>AVAILABLE_AUDIO_LANGUAGES\<close>, which the
  specification does not list, stay arguments, like the two built-ins.
\<close>

definition spec_env ::
    "(string \<Rightarrow> string) \<Rightarrow> (string \<Rightarrow> real option) \<Rightarrow> (string \<rightharpoonup> string) \<Rightarrow> (string \<rightharpoonup> string) \<Rightarrow> env" where
  "spec_env up pf vts als =
     \<lparr>str_upper = up, float_of_str = pf,
      DEFAULT_SOURCE_LANGUAGE = ''auto'', DEFAULT_LANGUAGE = ''ru'',
      DEFAULT_AUDIO_LANGUAGE = ''ru'', DEFAULT_VOICE_TYPE = ''normal'', DEFAULT_SPEED = 1,
      VOICE_TYPES = vts, AVAILABLE_AUDIO_LANGUAGES = als\<rparr>"

text \<open>\<^verbatim>\<open>str.upper\<close> on ASCII text; other bytes are kept.\<close>

definition ascii_upper :: "string \<Rightarrow> string" where
  "ascii_upper s =
     map (\<lambda>c. case map_of (zip ''abcdefghijklmnopqrstuvwxyz'' ''ABCDEFGHIJKLMNOPQRSTUVWXYZ'') c of
                None \<Rightarrow> c | Some C \<Rightarrow> C) s"

text \<open>The Russian names that \<^verbatim>\<open>models.py\<close> gives as column defaults, in UTF-8.\<close>

definition RUSSKIJ :: string where
  "RUSSKIJ = [CHR 0xD0, CHR 0xA0, CHR 0xD1, CHR 0x83, CHR 0xD1, CHR 0x81, CHR 0xD1, CHR 0x81,
     CHR 0xD0, CHR 0xBA, CHR 0xD0, CHR 0xB8, CHR 0xD0, CHR 0xB9]"

definition OBYCHNYJ :: string where
  "OBYCHNYJ = [CHR 0xD0, CHR 0x9E, CHR 0xD0, CHR 0xB1, CHR 0xD1, CHR 0x8B, CHR 0xD1, CHR 0x87,
     CHR 0xD0, CHR 0xBD, CHR 0xD1, CHR 0x8B, CHR 0xD0, CHR 0xB9]"

text \<open>
  An instance for evaluation at concrete inputs: ASCII upper-casing, a parser that knows the
  speeds \<^verbatim>\<open>0.5\<close>, \<^verbatim>\<open>1.0\<close> and \<^verbatim>\<open>2.0\<close> and rejects every other string, and the table
  entries of the two default codes.
\<close>

definition sample_float_of_str :: "string \<Rightarrow> real option" where
  "sample_float_of_str = map_of [(''0.5'', 1 / 2), (''1.0'', 1), (''2.0'', 2)]"

definition sample_env :: env where
  "sample_env = spec_env ascii_upper sample_float_of_str
     (map_of [(''normal'', OBYCHNYJ)]) (map_of [(''ru'', RUSSKIJ)])"

definition empty_store :: store where
  "empty_store = \<lparr>rows = [], next_id = 1\<rparr>"

text \<open>The row of user 42 as the first lookup creates it, and the table holding it.\<close>

definition row_42 :: user_settings where
  "row_42 = \<lparr>row_id = 1, user_id = ''42'', source_language = ''auto'', language = ''ru'',
      audio_language = ''ru'', voice_type = ''normal'', speed = PyFloat 1,
      source_language_name = AUTO_LABEL, language_name = ''Russian'',
      audio_language_name = RUSSKIJ, voice_type_name = OBYCHNYJ\<rparr>"

definition store_42 :: store where
  "store_42 = \<lparr>rows = [row_42], next_id = 2\<rparr>"

text \<open>The preferences object that \<^verbatim>\<open>UserPreferences("42")\<close> builds on the empty table.\<close>

definition prefs_42 :: user_preferences where
  "prefs_42 = \<lparr>self_user_id = UStr ''42'', self_source_language = ''auto'',
      self_language = ''ru'', self_audio_language = ''ru'', self_speed = PyFloat 1,
      self_voice_type = ''normal'', self_source_language_name = AUTO_LABEL,
      self_language_name = ''Russian'', self_audio_language_name = RUSSKIJ,
      self_voice_type_name = OBYCHNYJ\<rparr>"

text \<open>
  The resolution rule for a display name, following the code's test \<^verbatim>\<open>if name:\<close>: the
  table's name when it is there and not empty, the upper-cased code otherwise.
\<close>

definition resolveName :: "(string \<Rightarrow> string) \<Rightarrow> (string \<rightharpoonup> string) \<Rightarrow> string \<Rightarrow> string" where
  "resolveName up table code =
     (case table code of None \<Rightarrow> up code | Some n \<Rightarrow> if n = [] then up code else n)"

section \<open>Facts about the table\<close>

lemma find_update_first:
  "find (\<lambda>r. user_id r = u) rs = Some r \<Longrightarrow> user_id (f r) = u \<Longrightarrow>
   find (\<lambda>r. user_id r = u) (update_first u f rs) = Some (f r)"
  by (induction rs) (auto split: if_splits)

lemma query_first_commit_update:
  "query_first u st = Some r \<Longrightarrow> user_id (f r) = u \<Longrightarrow>
   query_first u (commit_update u f st) = Some (f r)"
  by (simp add: query_first_def commit_update_def find_update_first)

lemma query_first_user_id: "query_first u st = Some r \<Longrightarrow> user_id r = u"
  by (auto simp: query_first_def find_Some_iff)

lemma query_first_append_new:
  "query_first u st = None \<Longrightarrow> user_id s = u \<Longrightarrow>
   query_first u (st\<lparr>rows := rows st @ [s], next_id := k\<rparr>) = Some s"
  by (auto simp: query_first_def find_None_iff find_Some_iff nth_append
      intro!: exI[of _ "length (rows st)"])

lemma filter_absent:
  "query_first u st = None \<Longrightarrow> filter (\<lambda>r. user_id r = u) (rows st) = []"
  by (auto simp: query_first_def find_None_iff filter_empty_conv)

text \<open>A store operation that raises leaves the table as it was.\<close>

lemma store_error_unchanged:
  "update_user_language e uid c flt st = (Inl err, st') \<Longrightarrow> st' = st"
  "update_user_audio_language e uid c flt st = (Inl err, st') \<Longrightarrow> st' = st"
  "update_user_voice_type e uid c flt st = (Inl err, st') \<Longrightarrow> st' = st"
  "update_user_source_language e uid c flt st = (Inl err, st') \<Longrightarrow> st' = st"
  "update_user_speed e uid v flt st = (Inl err, st') \<Longrightarrow> st' = st"
  "get_or_create_user_settings e uid flt st = (Inl err, st') \<Longrightarrow> st' = st"
  by (auto simp: update_user_language_def update_user_audio_language_def update_user_voice_type_def
      update_user_source_language_def update_user_speed_def get_or_create_user_settings_def Let_def
      split: if_splits option.splits sum.splits)


lemma get_or_create_existing:
  "query_first (py_str uid) st = Some r \<Longrightarrow> flt \<noteq> QueryFails \<Longrightarrow>
   get_or_create_user_settings e uid flt st = (Inr r, st)"
  by (simp add: get_or_create_user_settings_def)

lemma get_or_create_returns_row:
  "get_or_create_user_settings e uid flt st = (Inr s, st') \<Longrightarrow>
   user_id s = py_str uid \<and> query_first (py_str uid) st' = Some s"
  by (auto simp: get_or_create_user_settings_def Let_def query_first_user_id
      query_first_append_new split: if_splits option.splits)

lemma resolveName_truthy:
  "(if truthy (table code) then the (table code) else up code) = resolveName up table code"
  "(if \<not> truthy (table code) then up code else the (table code)) = resolveName up table code"
  by (cases "table code"; simp add: resolveName_def)+

section \<open>Facts about the evaluation instance\<close>

lemma labels_nonempty: "RUSSKIJ \<noteq> []" "OBYCHNYJ \<noteq> []" "AUTO_LABEL \<noteq> []"
  by (simp_all add: RUSSKIJ_def OBYCHNYJ_def AUTO_LABEL_def)

lemma sample_row_42:
  "get_or_create_user_settings sample_env (UStr ''42'') NoFault empty_store = (Inr row_42, store_42)"
  by (simp add: get_or_create_user_settings_def sample_env_def spec_env_def empty_store_def
      row_42_def store_42_def query_first_def get_available_languages_def Let_def labels_nonempty)

lemma query_store_42: "query_first (py_str (UStr ''42'')) store_42 = Some row_42"
  "query_first (py_str (UInt 42)) store_42 = Some row_42"
  by (simp_all add: query_first_def store_42_def row_42_def str_int_def)

lemma query_42: "query_first ''42'' store_42 = Some row_42"
  using query_store_42(1) by simp

lemma commit_update_42: "commit_update ''42'' f store_42 = store_42\<lparr>rows := [f row_42]\<rparr>"
  by (simp add: commit_update_def store_42_def row_42_def)

lemma sample_prefs_42:
  "init sample_env (UStr ''42'') NoFault empty_store = (Inr prefs_42, store_42)"
  by (simp add: init_def init_try_def sample_row_42 row_42_def prefs_42_def)

section \<open>The preferences object and its row after an update\<close>

text \<open>
  When the user's row exists and the store call succeeds, every update method leaves the
  updated attribute equal to the stored field, and the methods for language, source
  language and audio language leave the name equal to the stored name as well. The name of
  the voice type is missing from this list.
\<close>

lemma facade_mirrors_store:
  assumes "query_first (py_str (self_user_id self)) st = Some r"
  shows "\<exists>self' st' r'. update_language e self c NoFault st = (Inr self', st')
           \<and> query_first (py_str (self_user_id self)) st' = Some r'
           \<and> self_language self' = language r' \<and> self_language_name self' = language_name r'"
    and "\<exists>self' st' r'. update_source_language e self c NoFault st = (Inr self', st')
           \<and> query_first (py_str (self_user_id self)) st' = Some r'
           \<and> self_source_language self' = source_language r'
           \<and> self_source_language_name self' = source_language_name r'"
    and "\<exists>self' st' r'. update_audio_language e self c NoFault st = (Inr self', st')
           \<and> query_first (py_str (self_user_id self)) st' = Some r'
           \<and> self_audio_language self' = audio_language r'
           \<and> self_audio_language_name self' = audio_language_name r'"
    and "py_float e v = Inr x \<Longrightarrow>
         \<exists>self' st' r'. update_speed e self v NoFault st = (Inr self', st')
           \<and> query_first (py_str (self_user_id self)) st' = Some r'
           \<and> self_speed self' = speed r'"
    and "\<exists>self' st' r'. update_voice_type e self c NoFault st = (Inr self', st')
           \<and> query_first (py_str (self_user_id self)) st' = Some r'
           \<and> self_voice_type self' = voice_type r'"
proof -
  have uid: "user_id r = py_str (self_user_id self)"
    using assms by (rule query_first_user_id)
  show "\<exists>self' st' r'. update_language e self c NoFault st = (Inr self', st')
           \<and> query_first (py_str (self_user_id self)) st' = Some r'
           \<and> self_language self' = language r' \<and> self_language_name self' = language_name r'"
    using assms uid
    by (simp add: update_language_def update_user_language_def Let_def query_first_commit_update)
  show "\<exists>self' st' r'. update_source_language e self c NoFault st = (Inr self', st')
           \<and> query_first (py_str (self_user_id self)) st' = Some r'
           \<and> self_source_language self' = source_language r'
           \<and> self_source_language_name self' = source_language_name r'"
    using assms uid
    by (simp add: update_source_language_def update_user_source_language_def Let_def
        query_first_commit_update)
  show "\<exists>self' st' r'. update_audio_language e self c NoFault st = (Inr self', st')
           \<and> query_first (py_str (self_user_id self)) st' = Some r'
           \<and> self_audio_language self' = audio_language r'
           \<and> self_audio_language_name self' = audio_language_name r'"
    using assms uid
    by (simp add: update_audio_language_def update_user_audio_language_def Let_def
        query_first_commit_update)
  show "\<exists>self' st' r'. update_speed e self v NoFault st = (Inr self', st')
           \<and> query_first (py_str (self_user_id self)) st' = Some r'
           \<and> self_speed self' = speed r'" if "py_float e v = Inr x"
    using assms uid that
    by (simp add: update_speed_def update_user_speed_def query_first_commit_update)
  show "\<exists>self' st' r'. update_voice_type e self c NoFault st = (Inr self', st')
           \<and> query_first (py_str (self_user_id self)) st' = Some r'
           \<and> self_voice_type self' = voice_type r'"
    using assms uid
    by (simp add: update_voice_type_def update_user_voice_type_def Let_def
        query_first_commit_update)
qed

text \<open>
  C1, at a voice-type code that \<^verbatim>\<open>VOICE_TYPES\<close> does not list. The update of the store
  succeeds and stores the upper-cased code \<^verbatim>\<open>ROBOT\<close> as name; the preferences object keeps
  \<^verbatim>\<open>Unknown\<close>, the default of \<^verbatim>\<open>VOICE_TYPES.get(voice_type, "Unknown")\<close>. The object and
  its row then differ, where C1 has both equal to the upper-cased code.
\<close>

theorem update_voice_type_unlisted_code:
  "VOICE_TYPES sample_env ''robot'' = None
   \<and> init sample_env (UStr ''42'') NoFault empty_store = (Inr prefs_42, store_42)
   \<and> update_voice_type sample_env prefs_42 ''robot'' NoFault store_42 =
       (Inr (prefs_42\<lparr>self_voice_type := ''robot'', self_voice_type_name := ''Unknown''\<rparr>),
        store_42\<lparr>rows := [row_42\<lparr>voice_type := ''robot'', voice_type_name := ''ROBOT''\<rparr>]\<rparr>)
   \<and> ''Unknown'' \<noteq> str_upper sample_env ''robot''"
proof -
  have t: "VOICE_TYPES sample_env ''robot'' = None"
    by (simp add: sample_env_def spec_env_def)
  have up: "str_upper sample_env ''robot'' = ''ROBOT''"
    by (simp add: sample_env_def spec_env_def ascii_upper_def)
  have u: "self_user_id prefs_42 = UStr ''42''" by (simp add: prefs_42_def)
  have db: "update_user_voice_type sample_env (UStr ''42'') ''robot'' NoFault store_42 =
       (Inr (), store_42\<lparr>rows := [row_42\<lparr>voice_type := ''robot'', voice_type_name := ''ROBOT''\<rparr>]\<rparr>)"
    unfolding update_user_voice_type_def by (simp add: query_42 commit_update_42 t up)
  have mem: "update_voice_type sample_env prefs_42 ''robot'' NoFault store_42 =
       (Inr (prefs_42\<lparr>self_voice_type := ''robot'', self_voice_type_name := ''Unknown''\<rparr>),
        store_42\<lparr>rows := [row_42\<lparr>voice_type := ''robot'', voice_type_name := ''ROBOT''\<rparr>]\<rparr>)"
    by (simp add: update_voice_type_def u db t)
  from t sample_prefs_42 mem up show ?thesis by simp
qed

section \<open>Speed validation in the store\<close>

text \<open>
  C2. When the user's row exists and the new speed is not a number (\<^verbatim>\<open>float\<close> raises on
  it: ValueError for a string such as \<^verbatim>\<open>"fast"\<close>, TypeError for \<^verbatim>\<open>None\<close>), the speed
  update of the store raises that error before anything is changed: the table, and so the
  row with its speed and every other field, is the same afterwards.
\<close>

theorem update_user_speed_rejects_non_numeric:
  assumes "query_first (py_str uid) st = Some r" and "flt \<noteq> QueryFails"
    and "py_float e v = Inl err"
  shows "update_user_speed e uid v flt st =
           (Inl (case v of PyStr s \<Rightarrow> ValueError | _ \<Rightarrow> TypeError), st)"
  using assms
  by (cases v) (auto simp: update_user_speed_def split: option.splits)

theorem update_user_speed_rejects_non_numeric_witness:
  "query_first (py_str (UStr ''42'')) store_42 = Some row_42
   \<and> py_float sample_env (PyStr ''fast'') = Inl ValueError
   \<and> update_user_speed sample_env (UStr ''42'') (PyStr ''fast'') NoFault store_42 =
      (Inl ValueError, store_42)"
proof -
  have h: "query_first (py_str (UStr ''42'')) store_42 = Some row_42"
    by (rule query_store_42)
  have f: "NoFault \<noteq> QueryFails" by simp
  have p: "py_float sample_env (PyStr ''fast'') = Inl ValueError"
    by (simp add: sample_env_def spec_env_def sample_float_of_str_def)
  from update_user_speed_rejects_non_numeric [OF h f p] h p
  show ?thesis by simp
qed

section \<open>First lookup of a new user\<close>

text \<open>
  C3, at the specification's own input: the first lookup of the new user \<^verbatim>\<open>"42"\<close> returns
  a row whose language name is \<^verbatim>\<open>Russian\<close>, the entry of \<^verbatim>\<open>ru\<close> in
  \<^verbatim>\<open>get_available_languages()\<close>, and not the Russian word of the specification's scenario.
\<close>

theorem new_user_language_name_counterexample:
  "map_sum id language_name
      (fst (get_or_create_user_settings sample_env (UStr ''42'') NoFault empty_store)) =
     Inr ''Russian''
   \<and> ''Russian'' \<noteq> RUSSKIJ"
  by (simp add: sample_row_42 row_42_def RUSSKIJ_def)

text \<open>
  C3, amended. With the defaults of the specification, two lookups in a row of a user who
  has no row return the same row; the first appends exactly that row to the table, the
  second changes nothing, so the user has exactly one row. The row carries source language
  \<^verbatim>\<open>auto\<close>, language \<^verbatim>\<open>ru\<close>, audio language \<^verbatim>\<open>ru\<close>, voice type \<^verbatim>\<open>normal\<close>, speed 1.0,
  the label of automatic detection as source language name, and the language name
  \<^verbatim>\<open>Russian\<close>.
\<close>

theorem get_or_create_twice_new_user:
  assumes "query_first (py_str uid) st = None" and "flt' \<noteq> QueryFails"
  shows "\<exists>s st'. get_or_create_user_settings (spec_env up pf vts als) uid NoFault st = (Inr s, st')
           \<and> get_or_create_user_settings (spec_env up pf vts als) uid flt' st' = (Inr s, st')
           \<and> rows st' = rows st @ [s]
           \<and> filter (\<lambda>r. user_id r = py_str uid) (rows st') = [s]
           \<and> source_language s = ''auto'' \<and> language s = ''ru'' \<and> audio_language s = ''ru''
           \<and> voice_type s = ''normal'' \<and> speed s = PyFloat 1
           \<and> source_language_name s = AUTO_LABEL \<and> language_name s = ''Russian''"
proof -
  let ?e = "spec_env up pf vts als"
  obtain s st' where first: "get_or_create_user_settings ?e uid NoFault st = (Inr s, st')"
    using assms(1) by (simp add: get_or_create_user_settings_def Let_def)
  have st': "st' = st\<lparr>rows := rows st @ [s], next_id := Suc (next_id st)\<rparr>"
    using first assms(1) by (auto simp: get_or_create_user_settings_def Let_def)
  have ru: "get_available_languages ''ru'' = Some ''Russian''"
    by (simp add: get_available_languages_def)
  have fields: "source_language s = ''auto'' \<and> language s = ''ru'' \<and> audio_language s = ''ru''
           \<and> voice_type s = ''normal'' \<and> speed s = PyFloat 1
           \<and> source_language_name s = AUTO_LABEL \<and> language_name s = ''Russian''"
    using first assms(1)
    by (auto simp: get_or_create_user_settings_def Let_def spec_env_def ru)
  from get_or_create_returns_row [OF first]
  have uid: "user_id s = py_str uid" and found: "query_first (py_str uid) st' = Some s"
    by simp_all
  have second: "get_or_create_user_settings ?e uid flt' st' = (Inr s, st')"
    using found assms(2) by (rule get_or_create_existing)
  have one: "filter (\<lambda>r. user_id r = py_str uid) (rows st') = [s]"
    using filter_absent [OF assms(1)] uid by (simp add: st')
  from first second one fields show ?thesis by (auto simp: st')
qed

theorem get_or_create_twice_new_user_witness:
  "query_first (py_str (UStr ''42'')) empty_store = None
   \<and> get_or_create_user_settings sample_env (UStr ''42'') NoFault empty_store = (Inr row_42, store_42)
   \<and> get_or_create_user_settings sample_env (UStr ''42'') NoFault store_42 = (Inr row_42, store_42)
   \<and> rows store_42 = [row_42]"
proof -
  have h: "query_first (py_str (UStr ''42'')) empty_store = None"
    by (simp add: query_first_def empty_store_def)
  have f: "NoFault \<noteq> QueryFails" by simp
  from get_or_create_twice_new_user [OF h f, of ascii_upper sample_float_of_str
         "map_of [(''normal'', OBYCHNYJ)]" "map_of [(''ru'', RUSSKIJ)]"]
       h sample_row_42
  show ?thesis
    by (auto simp: sample_env_def store_42_def)
qed

section \<open>Display names written by the store\<close>

text \<open>
  C4, at a table that gives a code the empty name: the code \<^verbatim>\<open>x\<close> is present in
  \<^verbatim>\<open>VOICE_TYPES\<close>, yet the voice-type update stores the upper-cased code \<^verbatim>\<open>X\<close> and not
  the table's value, because the code tests the looked-up name for truth (\<^verbatim>\<open>if voice_type_name:\<close>).
\<close>

theorem empty_name_counterexample:
  "VOICE_TYPES (sample_env\<lparr>VOICE_TYPES := [''x'' \<mapsto> '''']\<rparr>) ''x'' = Some ''''
   \<and> map voice_type_name
        (rows (snd (update_user_voice_type (sample_env\<lparr>VOICE_TYPES := [''x'' \<mapsto> '''']\<rparr>)
                      (UStr ''42'') ''x'' NoFault store_42))) = [''X'']"
proof -
  let ?e = "sample_env\<lparr>VOICE_TYPES := [''x'' \<mapsto> '''']\<rparr>"
  have t: "VOICE_TYPES ?e ''x'' = Some ''''" by simp
  have up: "str_upper sample_env ''x'' = ''X''"
    by (simp add: sample_env_def spec_env_def ascii_upper_def)
  have "update_user_voice_type ?e (UStr ''42'') ''x'' NoFault store_42 =
          (Inr (), store_42\<lparr>rows := [row_42\<lparr>voice_type := ''x'', voice_type_name := ''X''\<rparr>]\<rparr>)"
    unfolding update_user_voice_type_def by (simp add: query_42 commit_update_42 up)
  with t show ?thesis by simp
qed

text \<open>
  C4, amended. The update paths of the store (on the row of an existing user) and its create
  path (for a user without a row) set each display name by the resolution rule: the
  table's value when the code is present with a name that is not empty, the upper-cased
  code when the code is absent or its name is empty. For the source language the code
  \<^verbatim>\<open>auto\<close> always gets the label of automatic detection, without any lookup.
\<close>

theorem store_names_follow_resolution_rule:
  assumes "query_first (py_str uid) st = Some r" and "query_first (py_str uid') st0 = None"
  shows "query_first (py_str uid) (snd (update_user_language e uid c NoFault st)) =
           Some (r\<lparr>language := c,
                   language_name := resolveName (str_upper e) get_available_languages c\<rparr>)
       \<and> query_first (py_str uid) (snd (update_user_audio_language e uid c NoFault st)) =
           Some (r\<lparr>audio_language := c,
                   audio_language_name := resolveName (str_upper e) (AVAILABLE_AUDIO_LANGUAGES e) c\<rparr>)
       \<and> query_first (py_str uid) (snd (update_user_voice_type e uid c NoFault st)) =
           Some (r\<lparr>voice_type := c,
                   voice_type_name := resolveName (str_upper e) (VOICE_TYPES e) c\<rparr>)
       \<and> query_first (py_str uid) (snd (update_user_source_language e uid c NoFault st)) =
           Some (r\<lparr>source_language := c,
                   source_language_name :=
                     (if c = ''auto'' then AUTO_LABEL
                      else resolveName (str_upper e) get_available_languages c)\<rparr>)
       \<and> (\<exists>s. fst (get_or_create_user_settings e uid' NoFault st0) = Inr s
              \<and> language_name s = resolveName (str_upper e) get_available_languages (language s)
              \<and> audio_language_name s =
                  resolveName (str_upper e) (AVAILABLE_AUDIO_LANGUAGES e) (audio_language s)
              \<and> voice_type_name s = resolveName (str_upper e) (VOICE_TYPES e) (voice_type s)
              \<and> source_language_name s =
                  (if source_language s = ''auto'' then AUTO_LABEL
                   else resolveName (str_upper e) get_available_languages (source_language s)))"
proof -
  have uid: "user_id r = py_str uid"
    using assms(1) by (rule query_first_user_id)
  have lang: "query_first (py_str uid) (snd (update_user_language e uid c NoFault st)) =
           Some (r\<lparr>language := c,
                   language_name := resolveName (str_upper e) get_available_languages c\<rparr>)"
    using assms(1) uid
    by (simp add: update_user_language_def Let_def query_first_commit_update resolveName_truthy)
  have aud: "query_first (py_str uid) (snd (update_user_audio_language e uid c NoFault st)) =
           Some (r\<lparr>audio_language := c,
                   audio_language_name := resolveName (str_upper e) (AVAILABLE_AUDIO_LANGUAGES e) c\<rparr>)"
    using assms(1) uid
    by (simp add: update_user_audio_language_def Let_def query_first_commit_update resolveName_truthy)
  have voi: "query_first (py_str uid) (snd (update_user_voice_type e uid c NoFault st)) =
           Some (r\<lparr>voice_type := c,
                   voice_type_name := resolveName (str_upper e) (VOICE_TYPES e) c\<rparr>)"
    using assms(1) uid
    by (simp add: update_user_voice_type_def Let_def query_first_commit_update resolveName_truthy)
  have src: "query_first (py_str uid) (snd (update_user_source_language e uid c NoFault st)) =
           Some (r\<lparr>source_language := c,
                   source_language_name :=
                     (if c = ''auto'' then AUTO_LABEL
                      else resolveName (str_upper e) get_available_languages c)\<rparr>)"
    using assms(1) uid
    by (simp add: update_user_source_language_def Let_def query_first_commit_update resolveName_truthy)
  have new: "\<exists>s. fst (get_or_create_user_settings e uid' NoFault st0) = Inr s
              \<and> language_name s = resolveName (str_upper e) get_available_languages (language s)
              \<and> audio_language_name s =
                  resolveName (str_upper e) (AVAILABLE_AUDIO_LANGUAGES e) (audio_language s)
              \<and> voice_type_name s = resolveName (str_upper e) (VOICE_TYPES e) (voice_type s)
              \<and> source_language_name s =
                  (if source_language s = ''auto'' then AUTO_LABEL
                   else resolveName (str_upper e) get_available_languages (source_language s))"
    using assms(2)
    by (simp add: get_or_create_user_settings_def Let_def resolveName_truthy)
  from lang aud voi src new show ?thesis by blast
qed

theorem store_names_follow_resolution_rule_witness:
  "query_first (py_str (UStr ''42'')) store_42 = Some row_42
   \<and> query_first (py_str (UInt 7)) store_42 = None
   \<and> query_first ''42'' (snd (update_user_language sample_env (UStr ''42'') ''fr'' NoFault store_42)) =
       Some (row_42\<lparr>language := ''fr'', language_name := ''French''\<rparr>)
   \<and> query_first ''42'' (snd (update_user_voice_type sample_env (UStr ''42'') ''fr'' NoFault store_42)) =
       Some (row_42\<lparr>voice_type := ''fr'', voice_type_name := ''FR''\<rparr>)"
proof -
  have h: "query_first (py_str (UStr ''42'')) store_42 = Some row_42"
    by (rule query_store_42)
  have n: "query_first (py_str (UInt 7)) store_42 = None"
    by (simp add: query_first_def store_42_def row_42_def str_int_def)
  have fr: "get_available_languages ''fr'' = Some ''French''"
    by (simp add: get_available_languages_def)
  have up: "str_upper sample_env ''fr'' = ''FR''"
    by (simp add: sample_env_def spec_env_def ascii_upper_def)
  have vt: "VOICE_TYPES sample_env ''fr'' = None"
    by (simp add: sample_env_def spec_env_def)
  from store_names_follow_resolution_rule [OF h n, of sample_env "''fr''"] h n
  show ?thesis
    by (simp add: resolveName_def fr up vt)
qed

section \<open>Update methods when the store or the parse fails\<close>

text \<open>
  C5. No update method of the preferences object lets an exception out. When the store call
  of a method raises, the method returns with the object exactly as it was (and the table as
  it was). \<^verbatim>\<open>update_speed\<close> calls \<^verbatim>\<open>float\<close> before the store: for an argument that is
  not a number, the table and the object are both unchanged.
\<close>

theorem facade_update_failure_leaves_state:
  "\<not> isl (fst (update_language e self c flt st))
   \<and> \<not> isl (fst (update_source_language e self c flt st))
   \<and> \<not> isl (fst (update_audio_language e self c flt st))
   \<and> \<not> isl (fst (update_voice_type e self c flt st))
   \<and> \<not> isl (fst (update_speed e self v flt st))
   \<and> (fst (update_user_language e (self_user_id self) c flt st) = Inl err \<longrightarrow>
        update_language e self c flt st = (Inr self, st))
   \<and> (fst (update_user_source_language e (self_user_id self) c flt st) = Inl err \<longrightarrow>
        update_source_language e self c flt st = (Inr self, st))
   \<and> (fst (update_user_audio_language e (self_user_id self) c flt st) = Inl err \<longrightarrow>
        update_audio_language e self c flt st = (Inr self, st))
   \<and> (fst (update_user_voice_type e (self_user_id self) c flt st) = Inl err \<longrightarrow>
        update_voice_type e self c flt st = (Inr self, st))
   \<and> (py_float e v = Inr x \<and> fst (update_user_speed e (self_user_id self) (PyFloat x) flt st) = Inl err \<longrightarrow>
        update_speed e self v flt st = (Inr self, st))
   \<and> (py_float e w = Inl err \<longrightarrow> update_speed e self w flt st = (Inr self, st))"
proof -
  have total: "\<not> isl (fst (update_language e self c flt st))"
    "\<not> isl (fst (update_source_language e self c flt st))"
    "\<not> isl (fst (update_audio_language e self c flt st))"
    "\<not> isl (fst (update_voice_type e self c flt st))"
    "\<not> isl (fst (update_speed e self v flt st))"
    by (auto simp: update_language_def update_source_language_def update_audio_language_def
        update_voice_type_def update_speed_def Let_def split: prod.splits sum.splits)
  have lang: "update_language e self c flt st = (Inr self, st)"
    if "fst (update_user_language e (self_user_id self) c flt st) = Inl err"
    using that store_error_unchanged(1) [of e "self_user_id self" c flt st err]
    by (cases "update_user_language e (self_user_id self) c flt st")
       (simp add: update_language_def)
  have src: "update_source_language e self c flt st = (Inr self, st)"
    if "fst (update_user_source_language e (self_user_id self) c flt st) = Inl err"
    using that store_error_unchanged(4) [of e "self_user_id self" c flt st err]
    by (cases "update_user_source_language e (self_user_id self) c flt st")
       (simp add: update_source_language_def)
  have aud: "update_audio_language e self c flt st = (Inr self, st)"
    if "fst (update_user_audio_language e (self_user_id self) c flt st) = Inl err"
    using that store_error_unchanged(2) [of e "self_user_id self" c flt st err]
    by (cases "update_user_audio_language e (self_user_id self) c flt st")
       (simp add: update_audio_language_def)
  have voi: "update_voice_type e self c flt st = (Inr self, st)"
    if "fst (update_user_voice_type e (self_user_id self) c flt st) = Inl err"
    using that store_error_unchanged(3) [of e "self_user_id self" c flt st err]
    by (cases "update_user_voice_type e (self_user_id self) c flt st")
       (simp add: update_voice_type_def)
  have spd: "update_speed e self v flt st = (Inr self, st)"
    if "py_float e v = Inr x"
      and "fst (update_user_speed e (self_user_id self) (PyFloat x) flt st) = Inl err"
    using that store_error_unchanged(5) [of e "self_user_id self" "PyFloat x" flt st err]
    by (cases "update_user_speed e (self_user_id self) (PyFloat x) flt st")
       (simp add: update_speed_def)
  have parse: "update_speed e self w flt st = (Inr self, st)" if "py_float e w = Inl err"
    using that by (simp add: update_speed_def)
  from total lang src aud voi spd parse show ?thesis by blast
qed

theorem facade_update_failure_leaves_state_witness:
  "fst (update_user_language sample_env (UStr ''42'') ''fr'' QueryFails store_42) = Inl SQLAlchemyError
   \<and> update_language sample_env prefs_42 ''fr'' QueryFails store_42 = (Inr prefs_42, store_42)
   \<and> update_source_language sample_env prefs_42 ''fr'' QueryFails store_42 = (Inr prefs_42, store_42)
   \<and> update_audio_language sample_env prefs_42 ''fr'' QueryFails store_42 = (Inr prefs_42, store_42)
   \<and> update_voice_type sample_env prefs_42 ''fr'' QueryFails store_42 = (Inr prefs_42, store_42)
   \<and> update_speed sample_env prefs_42 (PyFloat 2) QueryFails store_42 = (Inr prefs_42, store_42)
   \<and> py_float sample_env (PyStr ''fast'') = Inl ValueError
   \<and> update_speed sample_env prefs_42 (PyStr ''fast'') QueryFails store_42 = (Inr prefs_42, store_42)"
proof -
  have u: "self_user_id prefs_42 = UStr ''42''" by (simp add: prefs_42_def)
  have h1: "fst (update_user_language sample_env (UStr ''42'') ''fr'' QueryFails store_42) = Inl SQLAlchemyError"
    by (simp add: update_user_language_def)
  have h2: "fst (update_user_source_language sample_env (UStr ''42'') ''fr'' QueryFails store_42) = Inl SQLAlchemyError"
    by (simp add: update_user_source_language_def)
  have h3: "fst (update_user_audio_language sample_env (UStr ''42'') ''fr'' QueryFails store_42) = Inl SQLAlchemyError"
    by (simp add: update_user_audio_language_def)
  have h4: "fst (update_user_voice_type sample_env (UStr ''42'') ''fr'' QueryFails store_42) = Inl SQLAlchemyError"
    by (simp add: update_user_voice_type_def)
  have h5: "py_float sample_env (PyFloat 2) = Inr 2
      \<and> fst (update_user_speed sample_env (UStr ''42'') (PyFloat 2) QueryFails store_42) = Inl SQLAlchemyError"
    by (simp add: update_user_speed_def)
  have h6: "py_float sample_env (PyStr ''fast'') = Inl ValueError"
    by (simp add: sample_env_def spec_env_def sample_float_of_str_def)
  from facade_update_failure_leaves_state
         [of sample_env prefs_42 "''fr''" QueryFails store_42 "PyFloat 2" SQLAlchemyError 2 "PyStr ''fast''"]
       facade_update_failure_leaves_state
         [of sample_env prefs_42 "''fr''" QueryFails store_42 "PyFloat 2" ValueError 2 "PyStr ''fast''"]
       h1 h2 h3 h4 h5 h6 u
  show ?thesis by simp
qed

section \<open>Updates of a user without a row\<close>

text \<open>
  C6. For a user with no row, each of the five update operations of the store returns
  normally and leaves the table as it is, whatever the new value is: a speed that is not a
  number included, since \<^verbatim>\<open>float\<close> is called only once a row is found. (The lookup itself
  is taken to reach the database.)
\<close>

theorem update_missing_user_noop:
  assumes "query_first (py_str uid) st = None" and "flt \<noteq> QueryFails"
  shows "update_user_language e uid c flt st = (Inr (), st)
       \<and> update_user_source_language e uid c flt st = (Inr (), st)
       \<and> update_user_audio_language e uid c flt st = (Inr (), st)
       \<and> update_user_voice_type e uid c flt st = (Inr (), st)
       \<and> update_user_speed e uid v flt st = (Inr (), st)"
  using assms
  by (simp add: update_user_language_def update_user_source_language_def
      update_user_audio_language_def update_user_voice_type_def update_user_speed_def)

theorem update_missing_user_noop_witness:
  "query_first (py_str (UInt 7)) empty_store = None \<and> NoFault \<noteq> QueryFails
   \<and> update_user_language sample_env (UInt 7) ''fr'' NoFault empty_store = (Inr (), empty_store)
   \<and> update_user_speed sample_env (UInt 7) (PyStr ''fast'') NoFault empty_store = (Inr (), empty_store)"
proof -
  have h: "query_first (py_str (UInt 7)) empty_store = None"
    by (simp add: query_first_def empty_store_def)
  have f: "NoFault \<noteq> QueryFails" by simp
  from update_missing_user_noop [OF h f, of sample_env "''fr''" "PyStr ''fast''"] h
  show ?thesis by simp
qed

section \<open>Construction of the preferences object\<close>

text \<open>
  C7. Construction never fails: \<^verbatim>\<open>__init__\<close> always returns an object. When
  \<^verbatim>\<open>get_or_create_user_settings\<close> raises, the object holds the default of every field (source
  language, language, audio language, voice type, speed) and, for the four names, the
  name that the catalog gives the default code: the label of automatic detection for
  \<^verbatim>\<open>auto\<close>, the resolution rule otherwise.
\<close>

theorem init_never_fails:
  "\<not> isl (fst (init e uid flt st))
   \<and> (fst (get_or_create_user_settings e uid flt st) = Inl err \<longrightarrow>
        init e uid flt st =
          (Inr \<lparr>self_user_id = uid,
                self_source_language = DEFAULT_SOURCE_LANGUAGE e,
                self_language = DEFAULT_LANGUAGE e,
                self_audio_language = DEFAULT_AUDIO_LANGUAGE e,
                self_speed = PyFloat (DEFAULT_SPEED e),
                self_voice_type = DEFAULT_VOICE_TYPE e,
                self_source_language_name =
                  (if DEFAULT_SOURCE_LANGUAGE e = ''auto'' then AUTO_LABEL
                   else resolveName (str_upper e) get_available_languages (DEFAULT_SOURCE_LANGUAGE e)),
                self_language_name =
                  resolveName (str_upper e) get_available_languages (DEFAULT_LANGUAGE e),
                self_audio_language_name =
                  resolveName (str_upper e) (AVAILABLE_AUDIO_LANGUAGES e) (DEFAULT_AUDIO_LANGUAGE e),
                self_voice_type_name =
                  resolveName (str_upper e) (VOICE_TYPES e) (DEFAULT_VOICE_TYPE e)\<rparr>, st))"
proof -
  have total: "\<not> isl (fst (init e uid flt st))"
    by (simp add: init_def split: prod.splits sum.splits)
  have fallback: "init e uid flt st = (Inr (init_except e uid), st)"
    if "fst (get_or_create_user_settings e uid flt st) = Inl err"
    using that store_error_unchanged(6) [of e uid flt st err]
    by (cases "get_or_create_user_settings e uid flt st") (simp add: init_def init_try_def)
  have names: "init_except e uid =
      \<lparr>self_user_id = uid,
       self_source_language = DEFAULT_SOURCE_LANGUAGE e,
       self_language = DEFAULT_LANGUAGE e,
       self_audio_language = DEFAULT_AUDIO_LANGUAGE e,
       self_speed = PyFloat (DEFAULT_SPEED e),
       self_voice_type = DEFAULT_VOICE_TYPE e,
       self_source_language_name =
         (if DEFAULT_SOURCE_LANGUAGE e = ''auto'' then AUTO_LABEL
          else resolveName (str_upper e) get_available_languages (DEFAULT_SOURCE_LANGUAGE e)),
       self_language_name =
         resolveName (str_upper e) get_available_languages (DEFAULT_LANGUAGE e),
       self_audio_language_name =
         resolveName (str_upper e) (AVAILABLE_AUDIO_LANGUAGES e) (DEFAULT_AUDIO_LANGUAGE e),
       self_voice_type_name =
         resolveName (str_upper e) (VOICE_TYPES e) (DEFAULT_VOICE_TYPE e)\<rparr>"
    by (simp add: init_except_def Let_def resolveName_truthy)
  from total fallback names show ?thesis by simp
qed

theorem init_never_fails_witness:
  "fst (get_or_create_user_settings sample_env (UInt 42) QueryFails store_42) = Inl SQLAlchemyError
   \<and> init sample_env (UInt 42) QueryFails store_42 =
       (Inr (prefs_42\<lparr>self_user_id := UInt 42\<rparr>), store_42)"
proof -
  have h: "fst (get_or_create_user_settings sample_env (UInt 42) QueryFails store_42) = Inl SQLAlchemyError"
    by (simp add: get_or_create_user_settings_def)
  have ru: "get_available_languages ''ru'' = Some ''Russian''"
    by (simp add: get_available_languages_def)
  from init_never_fails [of sample_env "UInt 42" QueryFails store_42 SQLAlchemyError] h
  show ?thesis
    by (simp add: sample_env_def spec_env_def prefs_42_def resolveName_def ru labels_nonempty)
qed

section \<open>Reading after writing\<close>

text \<open>
  C8. When the user's row exists and the language update of the store with code
  \<^verbatim>\<open>fr\<close> succeeds, the next \<^verbatim>\<open>get_or_create_user_settings\<close> of that user returns the row
  with language \<^verbatim>\<open>fr\<close> and language name \<^verbatim>\<open>French\<close>, the other fields as they were, and
  creates nothing.
\<close>

theorem language_write_then_read:
  assumes "query_first (py_str uid) st = Some r"
    and "update_user_language e uid ''fr'' flt st = (Inr (), st')"
    and "flt' \<noteq> QueryFails"
  shows "get_or_create_user_settings e uid flt' st' =
           (Inr (r\<lparr>language := ''fr'', language_name := ''French''\<rparr>), st')"
proof -
  have fr: "get_available_languages ''fr'' = Some ''French''"
    by (simp add: get_available_languages_def)
  let ?change = "\<lambda>r. r\<lparr>language := ''fr'', language_name := ''French''\<rparr>"
  have uid: "user_id r = py_str uid"
    using assms(1) by (rule query_first_user_id)
  from assms(1,2) have st': "st' = commit_update (py_str uid) ?change st"
    by (auto simp: update_user_language_def fr Let_def split: if_splits)
  have "query_first (py_str uid) st' = Some (?change r)"
    unfolding st' using assms(1) uid by (intro query_first_commit_update) simp_all
  then show ?thesis
    using assms(3) by (rule get_or_create_existing)
qed

theorem language_write_then_read_witness:
  "query_first (py_str (UStr ''42'')) store_42 = Some row_42
   \<and> update_user_language sample_env (UStr ''42'') ''fr'' NoFault store_42 =
       (Inr (), store_42\<lparr>rows := [row_42\<lparr>language := ''fr'', language_name := ''French''\<rparr>]\<rparr>)
   \<and> get_or_create_user_settings sample_env (UStr ''42'') NoFault
        (store_42\<lparr>rows := [row_42\<lparr>language := ''fr'', language_name := ''French''\<rparr>]\<rparr>) =
       (Inr (row_42\<lparr>language := ''fr'', language_name := ''French''\<rparr>),
        store_42\<lparr>rows := [row_42\<lparr>language := ''fr'', language_name := ''French''\<rparr>]\<rparr>)"
proof -
  have h: "query_first (py_str (UStr ''42'')) store_42 = Some row_42"
    by (rule query_store_42)
  have fr: "get_available_languages ''fr'' = Some ''French''"
    by (simp add: get_available_languages_def)
  have u: "update_user_language sample_env (UStr ''42'') ''fr'' NoFault store_42 =
       (Inr (), store_42\<lparr>rows := [row_42\<lparr>language := ''fr'', language_name := ''French''\<rparr>]\<rparr>)"
    using h by (simp add: update_user_language_def fr Let_def commit_update_def store_42_def row_42_def)
  have f: "NoFault \<noteq> QueryFails" by simp
  from language_write_then_read [OF h u f] h u show ?thesis by simp
qed

section \<open>User ids as text\<close>



section \<open>The speed of a constructed object\<close>



end
